theory Spec2Isabelle
  imports Complex_Main "HOL-Library.Sublist"
begin

section \<open>Values of the dashboard program\<close>

text \<open>
  The program (\<^verbatim>\<open>src/main.py\<close>) is a Streamlit page: it loads a watchlist from a
  spreadsheet, analyses every ticker with \<^verbatim>\<open>get_stock_analysis\<close> and renders one card per
  result.

  Cells of a pandas frame are floats, and pandas marks a missing cell with NaN. A float is
  modelled as a real number or NaN: finite values are idealised (no rounding, no overflow to
  infinity), NaN behaves as in IEEE arithmetic: it propagates through the arithmetic
  operations and every ordered comparison with it is false.
\<close>

datatype pyfloat = Num real | NaN

fun fsub :: "pyfloat \<Rightarrow> pyfloat \<Rightarrow> pyfloat" where
  "fsub (Num a) (Num b) = Num (a - b)"
| "fsub _ _ = NaN"

fun fmul :: "pyfloat \<Rightarrow> pyfloat \<Rightarrow> pyfloat" where
  "fmul (Num a) (Num b) = Num (a * b)"
| "fmul _ _ = NaN"

text \<open>
  The only division of the program is guarded by the truth value of its divisor, so the
  quotient by zero is never computed; the model gives it NaN.
\<close>

fun fdiv :: "pyfloat \<Rightarrow> pyfloat \<Rightarrow> pyfloat" where
  "fdiv (Num a) (Num b) = (if b = 0 then NaN else Num (a / b))"
| "fdiv _ _ = NaN"

fun flt :: "pyfloat \<Rightarrow> pyfloat \<Rightarrow> bool" where
  "flt (Num a) (Num b) = (a < b)"
| "flt _ _ = False"

fun fgt :: "pyfloat \<Rightarrow> pyfloat \<Rightarrow> bool" where
  "fgt (Num a) (Num b) = (a > b)"
| "fgt _ _ = False"

text \<open>\<^verbatim>\<open>pd.isna\<close> on a float cell, and the truth value of a float (\<^verbatim>\<open>if cost_price\<close>): zero is
  false, every other float is true, NaN included.\<close>

fun isna :: "pyfloat \<Rightarrow> bool" where
  "isna NaN = True"
| "isna (Num _) = False"

fun truthy :: "pyfloat \<Rightarrow> bool" where
  "truthy NaN = True"
| "truthy (Num c) = (c \<noteq> 0)"

text \<open>Exceptions are values. \<open>Raised\<close> stands for whatever an external call raises.\<close>

datatype error = IndexError | KeyError | Raised string

text \<open>Positional indexing \<^verbatim>\<open>.iloc[i]\<close>: a negative position counts from the end, a position
  outside the frame raises IndexError.\<close>

definition iloc :: "'a list \<Rightarrow> int \<Rightarrow> error + 'a" where
  "iloc xs i =
     (let pos = (if i < 0 then int (length xs) + i else i)
      in if pos < 0 \<or> int (length xs) \<le> pos then Inl IndexError else Inr (xs ! nat pos))"

text \<open>\<^verbatim>\<open>dict.get(key, default)\<close> on a field that the provider may omit.\<close>

definition get_or :: "'a option \<Rightarrow> 'a \<Rightarrow> 'a" where
  "get_or field dflt = (case field of None \<Rightarrow> dflt | Some v \<Rightarrow> v)"

subsection \<open>Price bars, indicator columns, fundamentals\<close>

text \<open>One row of the frame that \<^verbatim>\<open>yf.download\<close> returns.\<close>

record bar =
  Open :: pyfloat
  High :: pyfloat
  Low :: pyfloat
  Close :: pyfloat
  Volume :: pyfloat

text \<open>
  The indicator library appends columns to the frame (\<^verbatim>\<open>append=True\<close>); the program reads
  them at the last row only. A call of the library is therefore modelled by the columns it
  appends, read at the last row: a column that the library did not append is absent, and
  reading it raises KeyError.
\<close>

type_synonym last_cols = "string \<rightharpoonup> pyfloat"

definition getitem :: "last_cols \<Rightarrow> string \<Rightarrow> error + pyfloat" where
  "getitem cols key = (case cols key of None \<Rightarrow> Inl KeyError | Some v \<Rightarrow> Inr v)"

text \<open>
  The fundamentals \<^verbatim>\<open>yf.Ticker(symbol).info\<close>. A field that the provider supplies has the type
  of the data model (a string for the industry and the display name, a finite number for
  the others); a field that it omits is \<open>None\<close>.
\<close>

record info =
  industry :: "string option"
  bookValue :: "real option"
  trailingEps :: "real option"
  trailingPE :: "real option"
  shortName :: "string option"

text \<open>
  The external collaborators of one page run: the price download, the four indicator calls
  and the fundamentals. Each may raise.
\<close>

record env =
  yf_download :: "string \<Rightarrow> error + bar list"
  ta_stoch :: "bar list \<Rightarrow> error + last_cols"
  ta_macd :: "bar list \<Rightarrow> error + last_cols"
  ta_rsi :: "bar list \<Rightarrow> error + last_cols"
  ta_atr :: "bar list \<Rightarrow> error + last_cols"
  yf_info :: "string \<Rightarrow> error + info"

subsection \<open>The 20-day moving average\<close>

text \<open>
  \<^verbatim>\<open>Series.rolling(n).mean()\<close>: the entry at a position is the mean of the \<open>n\<close> values that
  end there, and NaN when fewer than \<open>n\<close> values end there or one of them is NaN.
\<close>

fun num_of :: "pyfloat \<Rightarrow> real" where
  "num_of (Num a) = a"
| "num_of NaN = 0"

definition window_mean :: "nat \<Rightarrow> pyfloat list \<Rightarrow> pyfloat" where
  "window_mean n xs =
     (let w = drop (length xs - n) xs
      in if length xs < n \<or> list_ex isna w then NaN
         else Num (sum_list (map num_of w) / real n))"

definition rolling_mean :: "nat \<Rightarrow> pyfloat list \<Rightarrow> pyfloat list" where
  "rolling_mean n xs = map (\<lambda>i. window_mean n (take (Suc i) xs)) [0..<length xs]"

section \<open>The per-symbol analyzer\<close>

datatype model_type = P_B | P_E

datatype trend = Strong | Weakening

text \<open>The \<^verbatim>\<open>in\<close> operator on strings is the substring test.\<close>

definition pb_keywords :: "string list" where
  "pb_keywords = [''Bank'', ''Insurance'', ''Shipping'', ''Steel'', ''Basic Materials'']"

definition is_pb_model :: "info \<Rightarrow> bool" where
  "is_pb_model fund = list_ex (\<lambda>x. sublist x (get_or (industry fund) '''')) pb_keywords"

definition valuation :: "info \<Rightarrow> real \<times> model_type" where
  "valuation fund =
     (if is_pb_model fund then (get_or (bookValue fund) 0 * (13 / 10), P_B)
      else (get_or (trailingEps fund) 0 * get_or (trailingPE fund) 15, P_E))"

definition trend_of :: "pyfloat \<Rightarrow> pyfloat \<Rightarrow> trend" where
  "trend_of close ma20 = (if fgt close ma20 then Strong else Weakening)"

definition roi_of :: "pyfloat \<Rightarrow> pyfloat option \<Rightarrow> pyfloat option" where
  "roi_of close cost_price =
     (case cost_price of
        None \<Rightarrow> None
      | Some c \<Rightarrow> if truthy c then Some (fmul (fdiv (fsub close c) c) (Num 100)) else None)"

text \<open>The dictionary that \<^verbatim>\<open>get_stock_analysis\<close> returns; \<open>res_price r\<close> is \<^verbatim>\<open>res['price']\<close>.\<close>

record analysis =
  res_df :: "bar list"
  res_info :: info
  res_price :: pyfloat
  res_intrinsic :: real
  res_model_type :: model_type
  res_k :: pyfloat
  res_rsi :: pyfloat
  res_macd_h :: pyfloat
  res_stop_loss :: pyfloat
  res_trend :: trend
  res_roi :: "pyfloat option"

text \<open>
  Lines 43 to 46: the four indicator calls, in order; each appends its columns to the
  frame, and the first one that raises ends the block.
\<close>

definition indicators :: "env \<Rightarrow> bar list \<Rightarrow> error + last_cols" where
  "indicators e frame =
     (case ta_stoch e frame of Inl x \<Rightarrow> Inl x | Inr c1 \<Rightarrow>
      (case ta_macd e frame of Inl x \<Rightarrow> Inl x | Inr c2 \<Rightarrow>
      (case ta_rsi e frame of Inl x \<Rightarrow> Inl x | Inr c3 \<Rightarrow>
      (case ta_atr e frame of Inl x \<Rightarrow> Inl x | Inr c4 \<Rightarrow>
         Inr (c1 ++ c2 ++ c3 ++ c4)))))"

text \<open>
  The body of the \<^verbatim>\<open>try\<close> block, statement by statement: \<open>Inl\<close> is an exception that
  leaves the block, \<open>Inr None\<close> the early \<^verbatim>\<open>return None\<close> on an empty frame.
\<close>

definition analysis_try :: "env \<Rightarrow> string \<Rightarrow> pyfloat option \<Rightarrow> error + analysis option" where
  "analysis_try e symbol cost_price =
     (case yf_download e symbol of Inl x \<Rightarrow> Inl x | Inr frame \<Rightarrow>
      if frame = [] then Inr None else
      (case indicators e frame of Inl x \<Rightarrow> Inl x | Inr cols \<Rightarrow>
      (case iloc frame (- 1) of Inl x \<Rightarrow> Inl x | Inr curr_row \<Rightarrow>
      (case iloc frame (- 2) of Inl x \<Rightarrow> Inl x | Inr prev_row \<Rightarrow>
      (case yf_info e symbol of Inl x \<Rightarrow> Inl x | Inr fund \<Rightarrow>
      (case getitem cols ''ATRr_14'' of Inl x \<Rightarrow> Inl x | Inr atr \<Rightarrow>
      (case iloc (rolling_mean 20 (map Close frame)) (- 1) of Inl x \<Rightarrow> Inl x | Inr ma20 \<Rightarrow>
      (case getitem cols ''STOCHk_9_3_3'' of Inl x \<Rightarrow> Inl x | Inr kv \<Rightarrow>
      (case getitem cols ''RSI_14'' of Inl x \<Rightarrow> Inl x | Inr rv \<Rightarrow>
      (case getitem cols ''MACDH_12_26_9'' of Inl x \<Rightarrow> Inl x | Inr mv \<Rightarrow>
         Inr (Some \<lparr>res_df = frame,
                    res_info = fund,
                    res_price = Close curr_row,
                    res_intrinsic = fst (valuation fund),
                    res_model_type = snd (valuation fund),
                    res_k = kv,
                    res_rsi = rv,
                    res_macd_h = mv,
                    res_stop_loss = fsub (Close curr_row) (fmul atr (Num 2)),
                    res_trend = trend_of (Close curr_row) ma20,
                    res_roi = roi_of (Close curr_row) cost_price\<rparr>)))))))))))"

text \<open>The bare \<^verbatim>\<open>except:\<close> turns every exception into \<^verbatim>\<open>None\<close>.\<close>

definition get_stock_analysis :: "env \<Rightarrow> string \<Rightarrow> pyfloat option \<Rightarrow> analysis option" where
  "get_stock_analysis e symbol cost_price =
     (case analysis_try e symbol cost_price of Inl x \<Rightarrow> None | Inr r \<Rightarrow> r)"

section \<open>The watchlist loader\<close>

text \<open>
  A row of the watchlist: \<open>Ticker\<close> is the cell as \<^verbatim>\<open>str(row['Ticker']).strip()\<close> gives it,
  \<open>Cost\<close> the cell of the cost column (NaN when the cell is empty; read only when the table
  has that column). A table is its column names and its rows.
\<close>

record sheet_row =
  Ticker :: string
  Cost :: pyfloat
  Note :: string

record table =
  tbl_columns :: "string list"
  tbl_rows :: "sheet_row list"

text \<open>The notice of \<^verbatim>\<open>st.error\<close> in the loader; it carries the exception.\<close>

datatype notice = ReadFailed error

definition empty_table :: table where
  "empty_table = \<lparr>tbl_columns = [''Ticker'', ''Cost'', ''Note''], tbl_rows = []\<rparr>"

text \<open>
  \<^verbatim>\<open>load_data_from_sheets\<close>, given the outcome of connecting and reading the spreadsheet:
  \<open>Inl\<close> when either raises an \<^verbatim>\<open>Exception\<close>.
\<close>

definition load_data_from_sheets :: "error + table \<Rightarrow> table \<times> notice option" where
  "load_data_from_sheets sheet_read =
     (case sheet_read of
        Inr data \<Rightarrow> (data, None)
      | Inl x \<Rightarrow> (empty_table, Some (ReadFailed x)))"

text \<open>
  The decorator \<^verbatim>\<open>st.cache_data(ttl=600)\<close> with the clock made explicit (seconds): a call
  returns the stored return value, with the notice that was shown when it was computed,
  while less than \<open>ttl\<close> seconds have passed since it was stored; otherwise the function
  runs and its return value is stored. The program never clears the cache.
\<close>

record memo =
  stored_at :: real
  stored :: "table \<times> notice option"

definition ttl :: real where
  "ttl = 600"

definition cached_load ::
  "real \<Rightarrow> memo option \<Rightarrow> error + table \<Rightarrow> (table \<times> notice option) \<times> memo option" where
  "cached_load now cache sheet_read =
     (let fresh = load_data_from_sheets sheet_read;
          run = (fresh, Some \<lparr>stored_at = now, stored = fresh\<rparr>)
      in case cache of
           None \<Rightarrow> run
         | Some m \<Rightarrow> if now < stored_at m + ttl then (stored m, cache) else run)"

section \<open>The page\<close>

datatype color = Green | Orange

datatype headline = Return_and_Stop pyfloat pyfloat | KD_and_RSI pyfloat pyfloat

datatype buy_signal = Margin_of_safety | Overvalued

datatype tech_signal = Strengthening | Fading

datatype advice = Bullish | Wait_and_see

text \<open>
  What the loop body renders for one result. Numbers are kept as values (the page formats
  them with two decimals or one); \<open>stop_warning\<close> is the banner of \<^verbatim>\<open>st.error\<close> with the
  stop-loss level it quotes, \<open>None\<close> when no banner is shown.
\<close>

record card =
  card_symbol :: string
  card_name :: string
  card_color :: color
  card_tag :: trend
  m1_price :: pyfloat
  m2_intrinsic :: "model_type \<times> real"
  m3_m4 :: headline
  stop_warning :: "pyfloat option"
  chart_bars :: "bar list"
  chart_ma20 :: "pyfloat list"
  card_buy :: buy_signal
  card_tech :: tech_signal
  card_advice :: advice

definition render_card :: "string \<Rightarrow> analysis \<Rightarrow> card" where
  "render_card symbol res =
     \<lparr>card_symbol = symbol,
      card_name = get_or (shortName (res_info res)) '''',
      card_color = (if res_trend res = Strong then Green else Orange),
      card_tag = res_trend res,
      m1_price = res_price res,
      m2_intrinsic = (res_model_type res, res_intrinsic res),
      m3_m4 = (case res_roi res of
                 Some roi \<Rightarrow> Return_and_Stop roi (res_stop_loss res)
               | None \<Rightarrow> KD_and_RSI (res_k res) (res_rsi res)),
      stop_warning = (if res_roi res \<noteq> None \<and> flt (res_price res) (res_stop_loss res)
                      then Some (res_stop_loss res) else None),
      chart_bars = res_df res,
      chart_ma20 = rolling_mean 20 (map Close (res_df res)),
      card_buy = (if flt (res_price res) (Num (res_intrinsic res))
                  then Margin_of_safety else Overvalued),
      card_tech = (if fgt (res_macd_h res) (Num 0) then Strengthening else Fading),
      card_advice = (if fgt (res_macd_h res) (Num 0)
                        \<and> flt (res_price res) (Num (res_intrinsic res))
                     then Bullish else Wait_and_see)\<rparr>"

text \<open>Lines 106 and 108: the cost of a row, and the argument passed to the analyzer.\<close>

definition cost_of :: "table \<Rightarrow> sheet_row \<Rightarrow> pyfloat" where
  "cost_of t row =
     (if ''Cost'' \<in> set (tbl_columns t) \<and> \<not> isna (Cost row) then Cost row else Num 0)"

definition cost_arg :: "pyfloat \<Rightarrow> pyfloat option" where
  "cost_arg cost = (if fgt cost (Num 0) then Some cost else None)"

definition render_row :: "env \<Rightarrow> table \<Rightarrow> sheet_row \<Rightarrow> card option" where
  "render_row e t row =
     (case get_stock_analysis e (Ticker row) (cost_arg (cost_of t row)) of
        None \<Rightarrow> None
      | Some res \<Rightarrow> Some (render_card (Ticker row) res))"

text \<open>The \<^verbatim>\<open>for\<close> loop over the rows: a row without a result renders nothing.\<close>

fun render_loop :: "env \<Rightarrow> table \<Rightarrow> sheet_row list \<Rightarrow> card list" where
  "render_loop e t [] = []"
| "render_loop e t (row # rest) =
     (case render_row e t row of
        None \<Rightarrow> render_loop e t rest
      | Some c \<Rightarrow> c # render_loop e t rest)"

text \<open>
  The main block: a table without rows or without columns is \<^verbatim>\<open>empty\<close> and gets the
  warning; \<^verbatim>\<open>row['Ticker']\<close> raises KeyError, outside every handler, when the table has no
  such column.
\<close>

datatype page = Empty_warning | Cards "card list"

definition main_page :: "env \<Rightarrow> table \<Rightarrow> error + page" where
  "main_page e t =
     (if tbl_rows t = [] \<or> tbl_columns t = [] then Inr Empty_warning
      else if ''Ticker'' \<notin> set (tbl_columns t) then Inl KeyError
      else Inr (Cards (render_loop e t (tbl_rows t))))"

section \<open>A sample market\<close>

text \<open>
  A concrete environment on which the statements below are evaluated: twenty bars for
  \<open>2330.TW\<close> (ten closes of 530, then ten of 550, so that the latest close is 550 and the
  20-day average 540), a regional bank, a symbol without fundamentals, twenty equal closes,
  an insurer without a book value,
  a symbol with one bar, a symbol whose download raises; every other symbol has no bars.
\<close>

definition flat_bar :: "real \<Rightarrow> bar" where
  "flat_bar c = \<lparr>Open = Num c, High = Num c, Low = Num c, Close = Num c, Volume = Num 1000\<rparr>"

definition sample_frame :: "string \<Rightarrow> error + bar list" where
  "sample_frame s =
     (if s = ''2330.TW'' then Inr (replicate 10 (flat_bar 530) @ replicate 10 (flat_bar 550))
      else if s = ''XYZ'' then Inr [flat_bar 30, flat_bar 31]
      else if s = ''NEW'' then Inr [flat_bar 8, flat_bar 9, flat_bar 10]
      else if s = ''FLAT'' then Inr (replicate 20 (flat_bar 100))
      else if s = ''INS'' then Inr [flat_bar 5, flat_bar 6]
      else if s = ''ONE'' then Inr [flat_bar 100]
      else if s = ''DOWN'' then Inl (Raised ''timeout'')
      else Inr [])"

definition sample_info :: "string \<Rightarrow> error + info" where
  "sample_info s =
     (if s = ''2330.TW'' then
        Inr \<lparr>industry = Some ''Semiconductors'', bookValue = Some 100,
             trailingEps = Some 30, trailingPE = Some 20, shortName = Some ''TSMC''\<rparr>
      else if s = ''XYZ'' then
        Inr \<lparr>industry = Some ''Regional Banks'', bookValue = Some 20,
             trailingEps = None, trailingPE = None, shortName = None\<rparr>
      else if s = ''INS'' then
        Inr \<lparr>industry = Some ''Insurance - Life'', bookValue = None,
             trailingEps = Some 2, trailingPE = Some 9, shortName = None\<rparr>
      else
        Inr \<lparr>industry = None, bookValue = None,
             trailingEps = None, trailingPE = None, shortName = None\<rparr>)"

definition sample_env :: env where
  "sample_env =
     \<lparr>yf_download = sample_frame,
      ta_stoch = (\<lambda>frame. Inr [''STOCHk_9_3_3'' \<mapsto> Num 80, ''STOCHd_9_3_3'' \<mapsto> Num 75]),
      ta_macd = (\<lambda>frame. Inr [''MACD_12_26_9'' \<mapsto> Num 3, ''MACDH_12_26_9'' \<mapsto> Num 2]),
      ta_rsi = (\<lambda>frame. Inr [''RSI_14'' \<mapsto> Num 60]),
      ta_atr = (\<lambda>frame. Inr [''ATRr_14'' \<mapsto> Num 10]),
      yf_info = sample_info\<rparr>"

text \<open>A result as the page may receive it: price 525 under a stop-loss of 530, with a
  return on cost.\<close>

definition below_stop :: analysis where
  "below_stop =
     \<lparr>res_df = [flat_bar 525],
      res_info = \<lparr>industry = None, bookValue = None,
             trailingEps = None, trailingPE = None, shortName = None\<rparr>,
      res_price = Num 525, res_intrinsic = 600, res_model_type = P_E,
      res_k = Num 20, res_rsi = Num 35, res_macd_h = Num (- 1),
      res_stop_loss = Num 530, res_trend = Weakening, res_roi = Some (Num 5)\<rparr>"

definition sample_table :: table where
  "sample_table =
     \<lparr>tbl_columns = [''Ticker'', ''Cost'', ''Note''],
      tbl_rows = [\<lparr>Ticker = ''NONE'', Cost = Num 12, Note = ''''\<rparr>,
                  \<lparr>Ticker = ''2330.TW'', Cost = Num 500, Note = ''''\<rparr>,
                  \<lparr>Ticker = ''XYZ'', Cost = NaN, Note = ''''\<rparr>]\<rparr>"

section \<open>Facts about the analyzer\<close>

subsection \<open>Indexing and lookups\<close>

lemma iloc_last: "iloc xs (- 1) = (if xs = [] then Inl IndexError else Inr (last xs))"
  by (cases xs rule: rev_cases) (auto simp: iloc_def Let_def nth_append)

lemma iloc_prev: "iloc xs (- 2) = (if length xs < 2 then Inl IndexError else Inr (xs ! (length xs - 2)))"
  by (auto simp: iloc_def Let_def nat_diff_distrib' intro!: arg_cong[where f="nth xs"])

lemma rolling_mean_last:
  "xs \<noteq> [] \<Longrightarrow> iloc (rolling_mean n xs) (- 1) = Inr (window_mean n xs)"
  by (simp add: iloc_last rolling_mean_def last_map last_conv_nth)

lemma getitem_Inr: "getitem cols key = Inr v \<longleftrightarrow> cols key = Some v"
  by (simp add: getitem_def split: option.splits)

lemma getitem_Inl: "getitem cols key = Inl x \<longleftrightarrow> cols key = None \<and> x = KeyError"
  by (auto simp add: getitem_def split: option.splits)

lemma analysis_try_run:
  assumes "yf_download e s = Inr frame" "2 \<le> length frame" "indicators e frame = Inr cols"
    "yf_info e s = Inr fund" "cols ''ATRr_14'' = Some atr" "cols ''STOCHk_9_3_3'' = Some kv"
    "cols ''RSI_14'' = Some rv" "cols ''MACDH_12_26_9'' = Some mv"
  shows "analysis_try e s c = Inr (Some
       \<lparr>res_df = frame, res_info = fund, res_price = Close (last frame),
        res_intrinsic = fst (valuation fund), res_model_type = snd (valuation fund),
        res_k = kv, res_rsi = rv, res_macd_h = mv,
        res_stop_loss = fsub (Close (last frame)) (fmul atr (Num 2)),
        res_trend = trend_of (Close (last frame)) (window_mean 20 (map Close frame)),
        res_roi = roi_of (Close (last frame)) c\<rparr>)"
proof -
  from assms(2) have ne: "frame \<noteq> []" and len: "\<not> length frame < 2" by auto
  have g: "getitem cols ''ATRr_14'' = Inr atr" "getitem cols ''STOCHk_9_3_3'' = Inr kv"
    "getitem cols ''RSI_14'' = Inr rv" "getitem cols ''MACDH_12_26_9'' = Inr mv"
    using assms(5-8) by (simp_all only: getitem_Inr)
  have l1: "iloc frame (- 1) = Inr (last frame)"
    using ne by (simp add: iloc_last)
  have l2: "iloc frame (- 2) = Inr (frame ! (length frame - 2))"
    using len by (simp add: iloc_prev)
  have l3: "iloc (rolling_mean 20 (map Close frame)) (- 1) = Inr (window_mean 20 (map Close frame))"
    using ne by (simp add: rolling_mean_last)
  show ?thesis
    unfolding analysis_try_def
    by (simp only: assms(1,3,4) g ne l1 l2 l3 sum.case if_False)
qed

lemma analysis_try_SomeD:
  assumes "analysis_try e s c = Inr (Some r)"
  shows "\<exists>frame cols fund atr kv rv mv.
      yf_download e s = Inr frame \<and> 2 \<le> length frame \<and> indicators e frame = Inr cols \<and>
      yf_info e s = Inr fund \<and> cols ''ATRr_14'' = Some atr \<and> cols ''STOCHk_9_3_3'' = Some kv \<and>
      cols ''RSI_14'' = Some rv \<and> cols ''MACDH_12_26_9'' = Some mv"
  using assms unfolding analysis_try_def
  by (auto simp: iloc_last iloc_prev getitem_Inr split: sum.splits if_splits)


lemma get_stock_analysis_run:
  assumes "yf_download e s = Inr frame" "2 \<le> length frame" "indicators e frame = Inr cols"
    "yf_info e s = Inr fund" "cols ''ATRr_14'' = Some atr" "cols ''STOCHk_9_3_3'' = Some kv"
    "cols ''RSI_14'' = Some rv" "cols ''MACDH_12_26_9'' = Some mv"
  shows "get_stock_analysis e s c = Some
       \<lparr>res_df = frame, res_info = fund, res_price = Close (last frame),
        res_intrinsic = fst (valuation fund), res_model_type = snd (valuation fund),
        res_k = kv, res_rsi = rv, res_macd_h = mv,
        res_stop_loss = fsub (Close (last frame)) (fmul atr (Num 2)),
        res_trend = trend_of (Close (last frame)) (window_mean 20 (map Close frame)),
        res_roi = roi_of (Close (last frame)) c\<rparr>"
  unfolding get_stock_analysis_def by (simp add: analysis_try_run [OF assms])

lemma get_stock_analysis_SomeE:
  assumes "get_stock_analysis e s c = Some r"
  obtains frame cols fund atr kv rv mv where
    "yf_download e s = Inr frame" "2 \<le> length frame" "indicators e frame = Inr cols"
    "yf_info e s = Inr fund" "cols ''ATRr_14'' = Some atr" "cols ''STOCHk_9_3_3'' = Some kv"
    "cols ''RSI_14'' = Some rv" "cols ''MACDH_12_26_9'' = Some mv"
    "r = \<lparr>res_df = frame, res_info = fund, res_price = Close (last frame),
        res_intrinsic = fst (valuation fund), res_model_type = snd (valuation fund),
        res_k = kv, res_rsi = rv, res_macd_h = mv,
        res_stop_loss = fsub (Close (last frame)) (fmul atr (Num 2)),
        res_trend = trend_of (Close (last frame)) (window_mean 20 (map Close frame)),
        res_roi = roi_of (Close (last frame)) c\<rparr>"
proof -
  from assms have "analysis_try e s c = Inr (Some r)"
    by (simp add: get_stock_analysis_def split: sum.splits)
  from analysis_try_SomeD [OF this] obtain frame cols fund atr kv rv mv where
    h: "yf_download e s = Inr frame" "2 \<le> length frame" "indicators e frame = Inr cols"
    "yf_info e s = Inr fund" "cols ''ATRr_14'' = Some atr" "cols ''STOCHk_9_3_3'' = Some kv"
    "cols ''RSI_14'' = Some rv" "cols ''MACDH_12_26_9'' = Some mv"
    by blast
  from get_stock_analysis_run [OF h, of c] assms that [OF h] show thesis
    by simp
qed

subsection \<open>The sample market, evaluated\<close>

lemma sample_indicators:
  "indicators sample_env frame =
     Inr ([''STOCHk_9_3_3'' \<mapsto> Num 80, ''STOCHd_9_3_3'' \<mapsto> Num 75]
          ++ [''MACD_12_26_9'' \<mapsto> Num 3, ''MACDH_12_26_9'' \<mapsto> Num 2]
          ++ [''RSI_14'' \<mapsto> Num 60] ++ [''ATRr_14'' \<mapsto> Num 10])"
  by (simp add: indicators_def sample_env_def)

lemma sample_run:
  assumes "sample_frame s = Inr frame" "2 \<le> length frame" "sample_info s = Inr fund"
  shows "get_stock_analysis sample_env s c = Some
       \<lparr>res_df = frame, res_info = fund, res_price = Close (last frame),
        res_intrinsic = fst (valuation fund), res_model_type = snd (valuation fund),
        res_k = Num 80, res_rsi = Num 60, res_macd_h = Num 2,
        res_stop_loss = fsub (Close (last frame)) (Num 20),
        res_trend = trend_of (Close (last frame)) (window_mean 20 (map Close frame)),
        res_roi = roi_of (Close (last frame)) c\<rparr>"
proof -
  let ?C = "[''STOCHk_9_3_3'' \<mapsto> Num 80, ''STOCHd_9_3_3'' \<mapsto> Num 75]
          ++ [''MACD_12_26_9'' \<mapsto> Num 3, ''MACDH_12_26_9'' \<mapsto> Num 2]
          ++ [''RSI_14'' \<mapsto> Num 60] ++ [''ATRr_14'' \<mapsto> Num 10]"
  have h1: "yf_download sample_env s = Inr frame"
    using assms(1) by (simp add: sample_env_def)
  have h4: "yf_info sample_env s = Inr fund"
    using assms(3) by (simp add: sample_env_def)
  have h5: "?C ''ATRr_14'' = Some (Num 10)" "?C ''STOCHk_9_3_3'' = Some (Num 80)"
    "?C ''RSI_14'' = Some (Num 60)" "?C ''MACDH_12_26_9'' = Some (Num 2)"
    by simp_all
  show ?thesis
    unfolding get_stock_analysis_run [OF h1 assms(2) sample_indicators h4 h5, of c]
    by simp
qed

lemma sample_2330:
  "get_stock_analysis sample_env ''2330.TW'' c = Some
       \<lparr>res_df = replicate 10 (flat_bar 530) @ replicate 10 (flat_bar 550),
        res_info = \<lparr>industry = Some ''Semiconductors'', bookValue = Some 100,
             trailingEps = Some 30, trailingPE = Some 20, shortName = Some ''TSMC''\<rparr>,
        res_price = Num 550, res_intrinsic = 600, res_model_type = P_E,
        res_k = Num 80, res_rsi = Num 60, res_macd_h = Num 2,
        res_stop_loss = Num 530, res_trend = Strong, res_roi = roi_of (Num 550) c\<rparr>"
proof -
  have v: "valuation \<lparr>industry = Some ''Semiconductors'', bookValue = Some 100,
             trailingEps = Some 30, trailingPE = Some 20, shortName = Some ''TSMC''\<rparr> = (600, P_E)"
    by (simp add: valuation_def is_pb_model_def pb_keywords_def get_or_def sublist_Cons_right)
  have m: "window_mean 20 (map Close (replicate 10 (flat_bar 530) @ replicate 10 (flat_bar 550))) = Num 540"
    by (simp add: window_mean_def flat_bar_def sum_list_replicate list_ex_iff)
  have l: "Close (last (replicate 10 (flat_bar 530) @ replicate 10 (flat_bar 550))) = Num 550"
    by (simp add: flat_bar_def)
  have f: "sample_frame ''2330.TW'' = Inr (replicate 10 (flat_bar 530) @ replicate 10 (flat_bar 550))"
    by (simp add: sample_frame_def)
  have i: "sample_info ''2330.TW'' = Inr \<lparr>industry = Some ''Semiconductors'', bookValue = Some 100,
             trailingEps = Some 30, trailingPE = Some 20, shortName = Some ''TSMC''\<rparr>"
    by (simp add: sample_info_def)
  have n: "2 \<le> length (replicate 10 (flat_bar 530) @ replicate 10 (flat_bar 550))"
    by simp
  show ?thesis
    unfolding sample_run [OF f n i, of c] v m l
    by (simp add: trend_of_def)
qed

lemma sample_xyz:
  "get_stock_analysis sample_env ''XYZ'' c = Some
       \<lparr>res_df = [flat_bar 30, flat_bar 31],
        res_info = \<lparr>industry = Some ''Regional Banks'', bookValue = Some 20,
             trailingEps = None, trailingPE = None, shortName = None\<rparr>,
        res_price = Num 31, res_intrinsic = 26, res_model_type = P_B,
        res_k = Num 80, res_rsi = Num 60, res_macd_h = Num 2,
        res_stop_loss = Num 11, res_trend = Weakening, res_roi = roi_of (Num 31) c\<rparr>"
proof -
  have v: "valuation \<lparr>industry = Some ''Regional Banks'', bookValue = Some 20,
             trailingEps = None, trailingPE = None, shortName = None\<rparr> = (26, P_B)"
    by (simp add: valuation_def is_pb_model_def pb_keywords_def get_or_def sublist_Cons_right)
  have m: "window_mean 20 (map Close [flat_bar 30, flat_bar 31]) = NaN"
    by (simp add: window_mean_def)
  have l: "Close (last [flat_bar 30, flat_bar 31]) = Num 31"
    by (simp add: flat_bar_def)
  have f: "sample_frame ''XYZ'' = Inr [flat_bar 30, flat_bar 31]"
    by (simp add: sample_frame_def)
  have i: "sample_info ''XYZ'' = Inr \<lparr>industry = Some ''Regional Banks'', bookValue = Some 20,
             trailingEps = None, trailingPE = None, shortName = None\<rparr>"
    by (simp add: sample_info_def)
  have n: "2 \<le> length ([flat_bar 30, flat_bar 31])"
    by simp
  show ?thesis
    unfolding sample_run [OF f n i, of c] v m l
    by (simp add: trend_of_def)
qed


section \<open>The claims\<close>

subsection \<open>Valuation model\<close>




subsection \<open>Stop-loss\<close>



subsection \<open>Trend\<close>


lemma window_mean_short: "length xs < n \<Longrightarrow> window_mean n xs = NaN"
  by (simp add: window_mean_def)





subsection \<open>Return on cost\<close>

lemma roi_of_cost_arg:
  "roi_of close (cost_arg (cost_of t row)) =
     (if ''Cost'' \<in> set (tbl_columns t) \<and> (\<exists>c. Cost row = Num c \<and> 0 < c)
      then Some (fmul (fdiv (fsub close (Cost row)) (Cost row)) (Num 100)) else None)"
  by (cases "Cost row") (auto simp: roi_of_def cost_arg_def cost_of_def)

lemma result_roi:
  "get_stock_analysis e s c = Some r \<Longrightarrow> res_roi r = roi_of (res_price r) c"
  by (erule get_stock_analysis_SomeE) simp



subsection \<open>Stop-loss warning\<close>

text \<open>
  Claim C5. On every card the warning banner is shown exactly when the result has a return
  on cost and its price is less than its stop-loss; the banner quotes that stop-loss. For
  the card of a watchlist row this is: the table has a cost column, the cost cell of the
  row is a number greater than zero, and the price is less than the stop-loss.
\<close>

theorem C5_warning_banner:
  "(stop_warning (render_card symb res) \<noteq> None \<longleftrightarrow>
      res_roi res \<noteq> None \<and> flt (res_price res) (res_stop_loss res)) \<and>
   (stop_warning (render_card symb res) \<noteq> None \<longrightarrow>
      stop_warning (render_card symb res) = Some (res_stop_loss res)) \<and>
   (get_stock_analysis e (Ticker row) (cost_arg (cost_of t row)) = Some res \<longrightarrow>
      render_row e t row = Some (render_card (Ticker row) res) \<and>
      (stop_warning (render_card (Ticker row) res) \<noteq> None \<longleftrightarrow>
         (''Cost'' \<in> set (tbl_columns t) \<and> (\<exists>c. Cost row = Num c \<and> 0 < c)) \<and>
         flt (res_price res) (res_stop_loss res)))"
proof -
  have a: "stop_warning (render_card s res) \<noteq> None \<longleftrightarrow>
      res_roi res \<noteq> None \<and> flt (res_price res) (res_stop_loss res)" for s
    by (simp add: render_card_def)
  have b: "stop_warning (render_card symb res) \<noteq> None \<longrightarrow>
      stop_warning (render_card symb res) = Some (res_stop_loss res)"
    by (simp add: render_card_def)
  have c: "render_row e t row = Some (render_card (Ticker row) res) \<and>
      (stop_warning (render_card (Ticker row) res) \<noteq> None \<longleftrightarrow>
         (''Cost'' \<in> set (tbl_columns t) \<and> (\<exists>c. Cost row = Num c \<and> 0 < c)) \<and>
         flt (res_price res) (res_stop_loss res))"
    if h: "get_stock_analysis e (Ticker row) (cost_arg (cost_of t row)) = Some res"
  proof -
    from h have "res_roi res = roi_of (res_price res) (cost_arg (cost_of t row))"
      by (rule result_roi)
    then have "res_roi res \<noteq> None \<longleftrightarrow>
       ''Cost'' \<in> set (tbl_columns t) \<and> (\<exists>c. Cost row = Num c \<and> 0 < c)"
      by (simp only: roi_of_cost_arg) simp
    with a [of "Ticker row"] h show ?thesis by (simp add: render_row_def)
  qed
  from a [of symb] b c show ?thesis by blast
qed

theorem C5_warning_banner_witness:
  "stop_warning (render_card ''2330.TW'' below_stop) = Some (Num 530) \<and>
   stop_warning (render_card ''2330.TW'' (below_stop\<lparr>res_roi := None\<rparr>)) = None \<and>
   (\<exists>r. get_stock_analysis sample_env ''2330.TW''
           (cost_arg (cost_of sample_table \<lparr>Ticker = ''2330.TW'', Cost = Num 500, Note = ''''\<rparr>)) = Some r \<and>
        res_price r = Num 550 \<and> res_stop_loss r = Num 530 \<and>
        stop_warning (render_card ''2330.TW'' r) = None)"
  using
    C5_warning_banner [of "''2330.TW''" below_stop sample_env
      "\<lparr>Ticker = ''2330.TW'', Cost = Num 500, Note = ''''\<rparr>" sample_table]
    C5_warning_banner [of "''2330.TW''" "below_stop\<lparr>res_roi := None\<rparr>" sample_env
      "\<lparr>Ticker = ''2330.TW'', Cost = Num 500, Note = ''''\<rparr>" sample_table]
    C5_warning_banner [of "''2330.TW''"
      "the (get_stock_analysis sample_env ''2330.TW'' (Some (Num 500)))" sample_env
      "\<lparr>Ticker = ''2330.TW'', Cost = Num 500, Note = ''''\<rparr>" sample_table]
  by (simp add: sample_2330 sample_table_def cost_of_def cost_arg_def below_stop_def render_card_def)

text \<open>
  The analyzer takes the price and the stop-loss from the same latest close, so on its own
  results the banner needs a negative value in the column \<open>ATRr_14\<close>.
\<close>

lemma stop_warning_needs_negative_atr:
  assumes "get_stock_analysis e s c = Some r" "stop_warning (render_card symb r) \<noteq> None"
  shows "\<exists>frame cols a. yf_download e s = Inr frame \<and> indicators e frame = Inr cols \<and>
           cols ''ATRr_14'' = Some (Num a) \<and> a < 0"
proof -
  from assms(1) obtain frame cols atr where
    h: "yf_download e s = Inr frame" "indicators e frame = Inr cols" "cols ''ATRr_14'' = Some atr"
    and r: "res_price r = Close (last frame)"
      "res_stop_loss r = fsub (Close (last frame)) (fmul atr (Num 2))"
    by (auto elim!: get_stock_analysis_SomeE)
  from assms(2) have "flt (res_price r) (res_stop_loss r)"
    by (simp add: render_card_def split: if_splits)
  with r have "\<exists>a. atr = Num a \<and> a < 0"
    by (cases atr; cases "Close (last frame)") simp_all
  with h show ?thesis by blast
qed

subsection \<open>Unavailable symbols\<close>

text \<open>
  The places where the \<^verbatim>\<open>try\<close> block is left by an exception: the download, an indicator
  call, the read of the second-to-last row of a one-row frame, the fundamentals, a column
  that was not appended.
\<close>

lemma analysis_try_raises:
  "yf_download e s = Inl x \<Longrightarrow> analysis_try e s c = Inl x"
  "yf_download e s = Inr frame \<Longrightarrow> frame \<noteq> [] \<Longrightarrow> indicators e frame = Inl x \<Longrightarrow>
     analysis_try e s c = Inl x"
  "yf_download e s = Inr frame \<Longrightarrow> indicators e frame = Inr cols \<Longrightarrow> length frame = 1 \<Longrightarrow>
     analysis_try e s c = Inl IndexError"
  "yf_download e s = Inr frame \<Longrightarrow> indicators e frame = Inr cols \<Longrightarrow> 2 \<le> length frame \<Longrightarrow>
     yf_info e s = Inl x \<Longrightarrow> analysis_try e s c = Inl x"
     apply (simp add: analysis_try_def)
    apply (simp add: analysis_try_def)
   apply (cases frame; simp add: analysis_try_def iloc_last iloc_prev)
  apply (cases frame; auto simp add: analysis_try_def iloc_last iloc_prev)
  done

lemma analysis_try_missing_column:
  assumes "yf_download e s = Inr frame" "indicators e frame = Inr cols" "2 \<le> length frame"
    "yf_info e s = Inr fund"
    "cols ''ATRr_14'' = None \<or> cols ''STOCHk_9_3_3'' = None \<or> cols ''RSI_14'' = None \<or>
       cols ''MACDH_12_26_9'' = None"
  shows "analysis_try e s c = Inl KeyError"
proof -
  from assms(3) have ne: "frame \<noteq> []" and len: "\<not> length frame < 2" by auto
  have l1: "iloc frame (- 1) = Inr (last frame)"
    using ne by (simp add: iloc_last)
  have l2: "iloc frame (- 2) = Inr (frame ! (length frame - 2))"
    using len by (simp add: iloc_prev)
  have l3: "iloc (rolling_mean 20 (map Close frame)) (- 1) = Inr (window_mean 20 (map Close frame))"
    using ne by (simp add: rolling_mean_last)
  have "analysis_try e s c =
      (case getitem cols ''ATRr_14'' of Inl x \<Rightarrow> Inl x | Inr atr \<Rightarrow>
      (case getitem cols ''STOCHk_9_3_3'' of Inl x \<Rightarrow> Inl x | Inr kv \<Rightarrow>
      (case getitem cols ''RSI_14'' of Inl x \<Rightarrow> Inl x | Inr rv \<Rightarrow>
      (case getitem cols ''MACDH_12_26_9'' of Inl x \<Rightarrow> Inl x | Inr mv \<Rightarrow>
         Inr (Some \<lparr>res_df = frame, res_info = fund, res_price = Close (last frame),
                    res_intrinsic = fst (valuation fund), res_model_type = snd (valuation fund),
                    res_k = kv, res_rsi = rv, res_macd_h = mv,
                    res_stop_loss = fsub (Close (last frame)) (fmul atr (Num 2)),
                    res_trend = trend_of (Close (last frame)) (window_mean 20 (map Close frame)),
                    res_roi = roi_of (Close (last frame)) c\<rparr>)))))"
    unfolding analysis_try_def
    by (simp only: assms(1,2,4) ne l1 l2 l3 sum.case if_False)
  also have "\<dots> = Inl KeyError"
    using assms(5) by (auto simp: getitem_def split: option.splits)
  finally show ?thesis .
qed

lemma indicators_raises:
  "ta_stoch e frame = Inl x \<or>
   (\<exists>c1. ta_stoch e frame = Inr c1 \<and> (ta_macd e frame = Inl x \<or>
     (\<exists>c2. ta_macd e frame = Inr c2 \<and> (ta_rsi e frame = Inl x \<or>
       (\<exists>c3. ta_rsi e frame = Inr c3 \<and> ta_atr e frame = Inl x))))) \<Longrightarrow>
   indicators e frame = Inl x"
  by (auto simp: indicators_def)

lemma render_loop_append:
  "render_loop e t (xs @ ys) = render_loop e t xs @ render_loop e t ys"
  by (induction xs) (simp_all split: option.splits)

text \<open>
  Claim C6. When the download of a row's symbol returns an empty frame, or an exception
  leaves the \<^verbatim>\<open>try\<close> block, the analyzer returns \<open>None\<close>, the row renders no card, and the
  loop renders the cards of the rows before it and of the rows after it; the page is that
  list of cards.
\<close>

theorem C6_unavailable_skipped:
  assumes "yf_download e (Ticker row) = Inr [] \<or>
           (\<exists>x. analysis_try e (Ticker row) (cost_arg (cost_of t row)) = Inl x)"
  shows "get_stock_analysis e (Ticker row) (cost_arg (cost_of t row)) = None \<and>
         render_row e t row = None \<and>
         render_loop e t (before @ row # after) = render_loop e t before @ render_loop e t after \<and>
         (''Ticker'' \<in> set (tbl_columns t) \<and> tbl_rows t = before @ row # after \<longrightarrow>
            main_page e t = Inr (Cards (render_loop e t before @ render_loop e t after)))"
proof -
  have n: "get_stock_analysis e (Ticker row) (cost_arg (cost_of t row)) = None"
    using assms by (auto simp: get_stock_analysis_def analysis_try_def)
  then have r: "render_row e t row = None"
    by (simp add: render_row_def)
  then have l: "render_loop e t (before @ row # after) =
      render_loop e t before @ render_loop e t after"
    by (simp add: render_loop_append)
  have p: "main_page e t = Inr (Cards (render_loop e t before @ render_loop e t after))"
    if "''Ticker'' \<in> set (tbl_columns t)" "tbl_rows t = before @ row # after"
    using that l by (auto simp: main_page_def)
  from n r l p show ?thesis by blast
qed

theorem C6_unavailable_skipped_witness:
  "get_stock_analysis sample_env ''NONE'' (Some (Num 12)) = None \<and>
   render_row sample_env sample_table \<lparr>Ticker = ''NONE'', Cost = Num 12, Note = ''''\<rparr> = None \<and>
   render_row sample_env sample_table \<lparr>Ticker = ''DOWN'', Cost = Num 12, Note = ''''\<rparr> = None \<and>
   main_page sample_env sample_table =
     Inr (Cards (render_loop sample_env sample_table
       [\<lparr>Ticker = ''2330.TW'', Cost = Num 500, Note = ''''\<rparr>,
        \<lparr>Ticker = ''XYZ'', Cost = NaN, Note = ''''\<rparr>])) \<and>
   map card_symbol (render_loop sample_env sample_table (tbl_rows sample_table)) =
     [''2330.TW'', ''XYZ'']"
proof -
  have empty: "yf_download sample_env ''NONE'' = Inr []"
    by (simp add: sample_env_def sample_frame_def)
  have down: "analysis_try sample_env ''DOWN'' c = Inl (Raised ''timeout'')" for c
    by (simp add: analysis_try_def sample_env_def sample_frame_def)
  have arg: "cost_arg (cost_of sample_table \<lparr>Ticker = tk, Cost = Num 12, Note = ''''\<rparr>) = Some (Num 12)"
    for tk
    by (simp add: cost_arg_def cost_of_def sample_table_def)
  note a = C6_unavailable_skipped [of sample_env "\<lparr>Ticker = ''NONE'', Cost = Num 12, Note = ''''\<rparr>"
      sample_table "[]" "[\<lparr>Ticker = ''2330.TW'', Cost = Num 500, Note = ''''\<rparr>,
        \<lparr>Ticker = ''XYZ'', Cost = NaN, Note = ''''\<rparr>]"]
  note b = C6_unavailable_skipped [of sample_env "\<lparr>Ticker = ''DOWN'', Cost = Num 12, Note = ''''\<rparr>"
      sample_table "[]" "[]"]
  have r1: "render_row sample_env sample_table \<lparr>Ticker = ''2330.TW'', Cost = Num 500, Note = ''''\<rparr> =
      Some (render_card ''2330.TW'' (the (get_stock_analysis sample_env ''2330.TW'' (Some (Num 500)))))"
    by (simp add: render_row_def cost_arg_def cost_of_def sample_table_def sample_2330)
  have r2: "render_row sample_env sample_table \<lparr>Ticker = ''XYZ'', Cost = NaN, Note = ''''\<rparr> =
      Some (render_card ''XYZ'' (the (get_stock_analysis sample_env ''XYZ'' None)))"
    by (simp add: render_row_def cost_arg_def cost_of_def sample_table_def sample_xyz)
  have rows: "tbl_rows sample_table = [] @ \<lparr>Ticker = ''NONE'', Cost = Num 12, Note = ''''\<rparr> #
      [\<lparr>Ticker = ''2330.TW'', Cost = Num 500, Note = ''''\<rparr>,
        \<lparr>Ticker = ''XYZ'', Cost = NaN, Note = ''''\<rparr>]"
    and cols: "''Ticker'' \<in> set (tbl_columns sample_table)"
    by (simp_all add: sample_table_def)
  from a empty arg have a': "get_stock_analysis sample_env ''NONE'' (Some (Num 12)) = None"
    "render_row sample_env sample_table \<lparr>Ticker = ''NONE'', Cost = Num 12, Note = ''''\<rparr> = None"
    "main_page sample_env sample_table =
     Inr (Cards (render_loop sample_env sample_table
       [\<lparr>Ticker = ''2330.TW'', Cost = Num 500, Note = ''''\<rparr>,
        \<lparr>Ticker = ''XYZ'', Cost = NaN, Note = ''''\<rparr>]))"
    using rows cols by simp_all
  from b down arg have b':
    "render_row sample_env sample_table \<lparr>Ticker = ''DOWN'', Cost = Num 12, Note = ''''\<rparr> = None"
    by simp
  have m: "map card_symbol (render_loop sample_env sample_table (tbl_rows sample_table)) =
     [''2330.TW'', ''XYZ'']"
    unfolding rows using a'(2) r1 r2 by (simp add: render_card_def)
  from a' b' m show ?thesis by simp
qed

subsection \<open>The loader and its cache\<close>

text \<open>
  Claim C7. When reading the spreadsheet raises, the loader returns the table without
  rows and with the columns \<open>Ticker\<close>, \<open>Cost\<close>, \<open>Note\<close>, together with a notice, and the page
  shows its empty-list warning; when the read succeeds the loader returns the data. The
  time to live is 600 seconds, ten minutes: a value stored at \<open>now\<close> is returned, whatever
  a read would give, by every call earlier than \<open>now + ttl\<close>, and a call at \<open>now + ttl\<close> or
  later runs the loader again and stores its result.
\<close>

theorem C7_loader:
  "load_data_from_sheets (Inl x) = (empty_table, Some (ReadFailed x)) \<and>
   tbl_columns empty_table = [''Ticker'', ''Cost'', ''Note''] \<and>
   tbl_rows empty_table = [] \<and>
   main_page e (fst (load_data_from_sheets (Inl x))) = Inr Empty_warning \<and>
   load_data_from_sheets (Inr data) = (data, None) \<and>
   ttl = 10 * 60 \<and>
   cached_load now None (Inr data) = ((data, None), Some \<lparr>stored_at = now, stored = (data, None)\<rparr>) \<and>
   (later < now + ttl \<longrightarrow>
      cached_load later (Some \<lparr>stored_at = now, stored = v\<rparr>) rd =
        (v, Some \<lparr>stored_at = now, stored = v\<rparr>)) \<and>
   (now + ttl \<le> later \<longrightarrow>
      cached_load later (Some \<lparr>stored_at = now, stored = v\<rparr>) rd =
        (load_data_from_sheets rd,
         Some \<lparr>stored_at = later, stored = load_data_from_sheets rd\<rparr>))"
  by (simp add: load_data_from_sheets_def empty_table_def main_page_def ttl_def cached_load_def
      Let_def)

theorem C7_loader_witness:
  "load_data_from_sheets (Inl (Raised ''no permission'')) =
     (empty_table, Some (ReadFailed (Raised ''no permission''))) \<and>
   main_page sample_env (fst (load_data_from_sheets (Inl (Raised ''no permission'')))) =
     Inr Empty_warning \<and>
   cached_load 0 None (Inr sample_table) =
     ((sample_table, None), Some \<lparr>stored_at = 0, stored = (sample_table, None)\<rparr>) \<and>
   cached_load 599 (Some \<lparr>stored_at = 0, stored = (sample_table, None)\<rparr>)
       (Inl (Raised ''no permission'')) =
     ((sample_table, None), Some \<lparr>stored_at = 0, stored = (sample_table, None)\<rparr>) \<and>
   cached_load 600 (Some \<lparr>stored_at = 0, stored = (sample_table, None)\<rparr>)
       (Inl (Raised ''no permission'')) =
     ((empty_table, Some (ReadFailed (Raised ''no permission''))),
      Some \<lparr>stored_at = 600,
            stored = (empty_table, Some (ReadFailed (Raised ''no permission'')))\<rparr>)"
  using
    C7_loader [of "Raised ''no permission''" sample_env sample_table 0 599 "(sample_table, None)"
      "Inl (Raised ''no permission'')"]
    C7_loader [of "Raised ''no permission''" sample_env sample_table 0 600 "(sample_table, None)"
      "Inl (Raised ''no permission'')"]
  by (simp add: ttl_def)

subsection \<open>The narrative sentence\<close>

text \<open>
  Claim C8. On every card the valuation verdict is "margin of safety" exactly when the
  price is less than the intrinsic value (otherwise "overvalued"), the momentum verdict is
  "strengthening" exactly when the MACD histogram is greater than zero (otherwise
  "weakening"), and the advice is the bullish one exactly when both hold (otherwise to
  wait).
\<close>

theorem C8_narrative:
  "(card_buy (render_card symb res) = Margin_of_safety \<longleftrightarrow>
      flt (res_price res) (Num (res_intrinsic res))) \<and>
   (card_buy (render_card symb res) = Overvalued \<longleftrightarrow>
      \<not> flt (res_price res) (Num (res_intrinsic res))) \<and>
   (card_tech (render_card symb res) = Strengthening \<longleftrightarrow> fgt (res_macd_h res) (Num 0)) \<and>
   (card_tech (render_card symb res) = Fading \<longleftrightarrow> \<not> fgt (res_macd_h res) (Num 0)) \<and>
   (card_advice (render_card symb res) = Bullish \<longleftrightarrow>
      fgt (res_macd_h res) (Num 0) \<and> flt (res_price res) (Num (res_intrinsic res))) \<and>
   (card_advice (render_card symb res) = Wait_and_see \<longleftrightarrow>
      \<not> (fgt (res_macd_h res) (Num 0) \<and> flt (res_price res) (Num (res_intrinsic res)))) \<and>
   (\<forall>p m. res_price res = Num p \<and> res_macd_h res = Num m \<longrightarrow>
      (card_buy (render_card symb res) = Margin_of_safety \<longleftrightarrow> p < res_intrinsic res) \<and>
      (card_tech (render_card symb res) = Strengthening \<longleftrightarrow> 0 < m) \<and>
      (card_advice (render_card symb res) = Bullish \<longleftrightarrow> 0 < m \<and> p < res_intrinsic res))"
  by (simp add: render_card_def)

theorem C8_narrative_witness:
  "card_buy (render_card ''A'' below_stop) = Margin_of_safety \<and>
   card_tech (render_card ''A'' below_stop) = Fading \<and>
   card_advice (render_card ''A'' below_stop) = Wait_and_see \<and>
   card_buy (render_card ''A'' (below_stop\<lparr>res_macd_h := Num 1\<rparr>)) = Margin_of_safety \<and>
   card_tech (render_card ''A'' (below_stop\<lparr>res_macd_h := Num 1\<rparr>)) = Strengthening \<and>
   card_advice (render_card ''A'' (below_stop\<lparr>res_macd_h := Num 1\<rparr>)) = Bullish \<and>
   card_buy (render_card ''A'' (below_stop\<lparr>res_macd_h := Num 1, res_intrinsic := 525\<rparr>)) = Overvalued \<and>
   card_advice (render_card ''A'' (below_stop\<lparr>res_macd_h := Num 1, res_intrinsic := 525\<rparr>)) =
     Wait_and_see"
  using C8_narrative [of "''A''" below_stop]
    C8_narrative [of "''A''" "below_stop\<lparr>res_macd_h := Num 1\<rparr>"]
    C8_narrative [of "''A''" "below_stop\<lparr>res_macd_h := Num 1, res_intrinsic := 525\<rparr>"]
  by (simp add: below_stop_def)

subsection \<open>Missing fundamentals\<close>





subsection \<open>A frame of one bar\<close>

text \<open>
  Claim C10. When the download returns exactly one bar the analyzer returns \<open>None\<close>: if
  the indicator calls return, the read of the second-to-last row raises IndexError, which
  the handler absorbs. A result is returned only for a frame of at least two bars.
\<close>

theorem C10_single_bar:
  "(yf_download e s = Inr [b] \<longrightarrow>
      get_stock_analysis e s c = None \<and>
      (\<forall>cols. indicators e [b] = Inr cols \<longrightarrow> analysis_try e s c = Inl IndexError)) \<and>
   (\<forall>r. get_stock_analysis e s c = Some r \<longrightarrow>
      (\<exists>frame. yf_download e s = Inr frame \<and> 2 \<le> length frame))"
proof -
  have a: "get_stock_analysis e s c = None \<and>
      (\<forall>cols. indicators e [b] = Inr cols \<longrightarrow> analysis_try e s c = Inl IndexError)"
    if "yf_download e s = Inr [b]"
    using that
    by (auto simp: get_stock_analysis_def analysis_try_def iloc_last iloc_prev split: sum.splits)
  have b: "\<exists>frame. yf_download e s = Inr frame \<and> 2 \<le> length frame"
    if "get_stock_analysis e s c = Some r" for r
    using that by (auto elim!: get_stock_analysis_SomeE)
  from a b show ?thesis by blast
qed

theorem C10_single_bar_witness:
  "yf_download sample_env ''ONE'' = Inr [flat_bar 100] \<and>
   analysis_try sample_env ''ONE'' None = Inl IndexError \<and>
   get_stock_analysis sample_env ''ONE'' None = None \<and>
   (\<exists>r. get_stock_analysis sample_env ''XYZ'' None = Some r \<and> length (res_df r) = 2)"
proof -
  have d: "yf_download sample_env ''ONE'' = Inr [flat_bar 100]"
    by (simp add: sample_env_def sample_frame_def)
  from C10_single_bar [of sample_env "''ONE''" "flat_bar 100" None] d sample_indicators
  have "analysis_try sample_env ''ONE'' None = Inl IndexError"
    "get_stock_analysis sample_env ''ONE'' None = None"
    by simp_all
  with d show ?thesis
    by (simp add: sample_xyz)
qed

end
